theory Spec2Isabelle
  imports Complex_Main
begin

section \<open>Conventions of the embedding\<close>

text \<open>
  The development embeds the request-lifecycle orchestrator of \<^verbatim>\<open>llm_guardian\<close> and the
  protective primitives it composes.

  \<^item> Python \<^verbatim>\<open>int\<close> is \<^typ>\<open>int\<close>; Python \<^verbatim>\<open>float\<close> is read as an exact number
    (\<^typ>\<open>real\<close>), so rounding of the IEEE arithmetic is not part of the model.
  \<^item> A \<^verbatim>\<open>datetime\<close> is the number of seconds since the epoch (\<^typ>\<open>real\<close>), a
    \<^verbatim>\<open>timedelta\<close> a number of seconds. A function that reads \<^verbatim>\<open>datetime.utcnow()\<close>
    takes the reading as its argument \<open>now\<close>; all readings inside one locked block
    are the same instant.
  \<^item> A raised exception is a value: an exception is identified with its class, and every
    function that can raise returns a sum with the exception on the left. Mutated objects are
    passed in and returned, also on the raising path, since Python keeps the mutations made
    before a \<^verbatim>\<open>raise\<close>.
  \<^item> The coroutines are run one at a time: a call runs to completion before the next
    starts. Interleavings of several requests are outside the model.
\<close>

section \<open>Exceptions (\<^verbatim>\<open>core/exceptions.py\<close>)\<close>

datatype exn =
    Exception | OSError | ConnectionError | TimeoutError
  | ValueError | PydanticValidationError
  | LLMGuardianError
  | ValidationError | PromptInjectionError | ContentPolicyViolationError
  | RateLimitExceededError | QuotaExceededError
  | SessionBudgetExceededError | BudgetExceededError
  | CircuitBreakerOpenError | CircuitBreakerError
  | RetryExhaustedError | NonRetryableError
  | MonitoringError | QualityCheckFailedError
  | HallucinationDetectedError | OffTaskResponseError
  | LLMProviderError | LLMProviderTimeoutError
  | LLMProviderRateLimitError | LLMProviderAPIError
  | StateManagementError | CheckpointNotFoundError
  | CheckpointLoadError | CheckpointSaveError
  | ConfigurationError | MissingAPIKeyError
  | IntegrationError | UnsupportedProviderError | ModelNotAvailableError

text \<open>The direct base class of each exception class, as declared in the source (the
  built-in classes follow the Python hierarchy; \<open>PydanticValidationError\<close> is the
  \<^verbatim>\<open>ValidationError\<close> of the pydantic library, raised when a model is constructed
  from values that violate its field constraints).\<close>

fun base :: "exn \<Rightarrow> exn option" where
  "base Exception = None"
| "base OSError = Some Exception"
| "base ConnectionError = Some OSError"
| "base TimeoutError = Some OSError"
| "base ValueError = Some Exception"
| "base PydanticValidationError = Some ValueError"
| "base LLMGuardianError = Some Exception"
| "base ValidationError = Some LLMGuardianError"
| "base PromptInjectionError = Some ValidationError"
| "base ContentPolicyViolationError = Some ValidationError"
| "base RateLimitExceededError = Some LLMGuardianError"
| "base QuotaExceededError = Some LLMGuardianError"
| "base SessionBudgetExceededError = Some QuotaExceededError"
| "base BudgetExceededError = Some QuotaExceededError"
| "base CircuitBreakerOpenError = Some LLMGuardianError"
| "base CircuitBreakerError = Some LLMGuardianError"
| "base RetryExhaustedError = Some LLMGuardianError"
| "base NonRetryableError = Some LLMGuardianError"
| "base MonitoringError = Some LLMGuardianError"
| "base QualityCheckFailedError = Some MonitoringError"
| "base HallucinationDetectedError = Some QualityCheckFailedError"
| "base OffTaskResponseError = Some QualityCheckFailedError"
| "base LLMProviderError = Some LLMGuardianError"
| "base LLMProviderTimeoutError = Some LLMProviderError"
| "base LLMProviderRateLimitError = Some LLMProviderError"
| "base LLMProviderAPIError = Some LLMProviderError"
| "base StateManagementError = Some LLMGuardianError"
| "base CheckpointNotFoundError = Some StateManagementError"
| "base CheckpointLoadError = Some StateManagementError"
| "base CheckpointSaveError = Some StateManagementError"
| "base ConfigurationError = Some LLMGuardianError"
| "base MissingAPIKeyError = Some ConfigurationError"
| "base IntegrationError = Some LLMGuardianError"
| "base UnsupportedProviderError = Some IntegrationError"
| "base ModelNotAvailableError = Some IntegrationError"

text \<open>Depth of a class below \<open>Exception\<close>; it bounds the walk up the hierarchy.\<close>

fun rank :: "exn \<Rightarrow> nat" where
  "rank e = (case base e of None \<Rightarrow> 0
     | Some b1 \<Rightarrow> (case base b1 of None \<Rightarrow> 1
     | Some b2 \<Rightarrow> (case base b2 of None \<Rightarrow> 2
     | Some b3 \<Rightarrow> (case base b3 of None \<Rightarrow> 3 | Some b4 \<Rightarrow> 4))))"

function mro :: "exn \<Rightarrow> exn list" where
  "mro e = e # (case base e of None \<Rightarrow> [] | Some b \<Rightarrow> mro b)"
  by pat_completeness auto
termination
proof (relation "measure rank")
  show "wf (measure rank)" by simp
next
  fix e b
  assume "base e = Some b"
  then have "rank b < rank e" by (cases e) auto
  then show "(b, e) \<in> measure rank" by simp
qed

declare mro.simps [simp del]

text \<open>\<^verbatim>\<open>except C as e\<close> catches \<open>e\<close> when \<open>C\<close> is among the classes of \<open>e\<close>.\<close>

definition isinstance :: "exn \<Rightarrow> exn \<Rightarrow> bool" where
  "isinstance e c \<longleftrightarrow> c \<in> set (mro e)"

section \<open>Circuit breaker (\<^verbatim>\<open>safety/circuit_breaker.py\<close>)\<close>

datatype CircuitState = CLOSED | OPEN | HALF_OPEN

record CircuitBreaker =
  failure_threshold :: int
  recovery_timeout :: real
  success_threshold :: int
  expected_exception :: exn
  state :: CircuitState
  failure_count :: int
  success_count :: int
  last_failure_time :: "real option"
  last_state_change :: real
  total_calls :: int
  total_failures :: int
  total_successes :: int
  state_history :: "(CircuitState \<times> real) list"

text \<open>\<^verbatim>\<open>CircuitBreaker.__init__\<close>, with the defaults of its signature written out by the
  caller: \<open>failure_threshold = 5\<close>, \<open>recovery_timeout = 60\<close>, \<open>success_threshold = 2\<close>,
  \<open>expected_exception = Exception\<close>.\<close>

definition CircuitBreaker_init :: "real \<Rightarrow> int \<Rightarrow> real \<Rightarrow> int \<Rightarrow> exn \<Rightarrow> CircuitBreaker" where
  "CircuitBreaker_init now ft rt st ee =
     \<lparr> failure_threshold = ft, recovery_timeout = rt, success_threshold = st,
       expected_exception = ee,
       state = CLOSED, failure_count = 0, success_count = 0,
       last_failure_time = None, last_state_change = now,
       total_calls = 0, total_failures = 0, total_successes = 0,
       state_history = [(CLOSED, now)] \<rparr>"

definition should_attempt_reset :: "real \<Rightarrow> CircuitBreaker \<Rightarrow> bool" where
  "should_attempt_reset now cb =
     (case last_failure_time cb of
        None \<Rightarrow> True
      | Some t \<Rightarrow> now - t \<ge> recovery_timeout cb)"

definition time_until_retry :: "real \<Rightarrow> CircuitBreaker \<Rightarrow> real" where
  "time_until_retry now cb =
     (case last_failure_time cb of
        None \<Rightarrow> 0
      | Some t \<Rightarrow> max 0 (recovery_timeout cb - (now - t)))"

definition transition_to :: "real \<Rightarrow> CircuitState \<Rightarrow> CircuitBreaker \<Rightarrow> CircuitBreaker" where
  "transition_to now new_state cb =
     (if state cb \<noteq> new_state then
        let cb1 = cb\<lparr> state := new_state, last_state_change := now,
                      state_history := state_history cb @ [(new_state, now)] \<rparr>
        in if new_state = CLOSED then cb1\<lparr> failure_count := 0, success_count := 0 \<rparr>
           else if new_state = HALF_OPEN then cb1\<lparr> success_count := 0 \<rparr>
           else cb1
      else cb)"

definition on_success :: "real \<Rightarrow> CircuitBreaker \<Rightarrow> CircuitBreaker" where
  "on_success now cb =
     (let cb1 = cb\<lparr> failure_count := 0, total_successes := total_successes cb + 1 \<rparr>
      in if state cb1 = HALF_OPEN then
           let cb2 = cb1\<lparr> success_count := success_count cb1 + 1 \<rparr>
           in if success_count cb2 \<ge> success_threshold cb2
              then (transition_to now CLOSED cb2)\<lparr> success_count := 0 \<rparr>
              else cb2
         else cb1)"

definition on_failure :: "real \<Rightarrow> CircuitBreaker \<Rightarrow> CircuitBreaker" where
  "on_failure now cb =
     (let cb1 = cb\<lparr> failure_count := failure_count cb + 1,
                    total_failures := total_failures cb + 1,
                    last_failure_time := Some now \<rparr>
      in if state cb1 = HALF_OPEN then
           (transition_to now OPEN cb1)\<lparr> success_count := 0 \<rparr>
         else if state cb1 = CLOSED then
           (if failure_count cb1 \<ge> failure_threshold cb1
            then transition_to now OPEN cb1 else cb1)
         else cb1)"

text \<open>The first locked block of \<^verbatim>\<open>CircuitBreaker.call\<close> (the admission of the call):
  it counts the call and either lets it through, moving an OPEN breaker whose recovery
  timeout has elapsed to HALF_OPEN, or raises \<^verbatim>\<open>CircuitBreakerOpenError\<close>.\<close>

definition call_admit :: "real \<Rightarrow> CircuitBreaker \<Rightarrow> exn option \<times> CircuitBreaker" where
  "call_admit now cb =
     (let cb1 = cb\<lparr> total_calls := total_calls cb + 1 \<rparr>
      in if state cb1 = OPEN then
           (if should_attempt_reset now cb1
            then (None, transition_to now HALF_OPEN cb1)
            else (Some CircuitBreakerOpenError, cb1))
         else (None, cb1))"

text \<open>\<^verbatim>\<open>CircuitBreaker.call\<close>. The wrapped coroutine \<open>func\<close> acts on a world \<open>w\<close> (whatever
  it can change, the clock included) and returns its result or the exception it raised;
  \<open>clock w\<close> is what \<^verbatim>\<open>datetime.utcnow()\<close> reads in world \<open>w\<close>. An exception outside
  \<open>expected_exception\<close> passes through without being recorded.\<close>

definition call ::
  "('w \<Rightarrow> real) \<Rightarrow> ('w \<Rightarrow> (exn + 'a) \<times> 'w) \<Rightarrow> 'w \<Rightarrow> CircuitBreaker
     \<Rightarrow> (exn + 'a) \<times> 'w \<times> CircuitBreaker" where
  "call clock func w cb =
     (case call_admit (clock w) cb of
        (Some e, cb1) \<Rightarrow> (Inl e, w, cb1)
      | (None, cb1) \<Rightarrow>
          (case func w of
             (Inr result, w') \<Rightarrow> (Inr result, w', on_success (clock w') cb1)
           | (Inl e, w') \<Rightarrow>
               if isinstance e (expected_exception cb1)
               then (Inl e, w', on_failure (clock w') cb1)
               else (Inl e, w', cb1)))"

text \<open>Calls made one after the other through the same breaker; the results are dropped.\<close>

fun call_seq ::
  "('w \<Rightarrow> real) \<Rightarrow> ('w \<Rightarrow> (exn + 'a) \<times> 'w) list \<Rightarrow> 'w \<Rightarrow> CircuitBreaker
     \<Rightarrow> 'w \<times> CircuitBreaker" where
  "call_seq clock [] w cb = (w, cb)"
| "call_seq clock (f # fs) w cb =
     (case call clock f w cb of (r, w', cb') \<Rightarrow> call_seq clock fs w' cb')"

definition reset :: "real \<Rightarrow> CircuitBreaker \<Rightarrow> CircuitBreaker" where
  "reset now cb =
     (transition_to now CLOSED cb)\<lparr> failure_count := 0, success_count := 0,
                                     last_failure_time := None \<rparr>"


section \<open>Domain models (\<^verbatim>\<open>core/models.py\<close>)\<close>

text \<open>\<^verbatim>\<open>RequestContext\<close>. The free-form \<open>metadata\<close> map is opaque to the core and left
  out.\<close>

record RequestContext =
  request_id :: string
  timestamp :: real
  user_id :: "string option"
  session_id :: "string option"
  prompt :: string
  max_tokens :: int
  temperature :: real
  allowed_topics :: "string list option"
  forbidden_patterns :: "string list option"
  max_cost_usd :: "real option"


section \<open>Rate limiting (\<^verbatim>\<open>safety/rate_limiter.py\<close>)\<close>

subsection \<open>TokenBucket\<close>

record TokenBucket =
  capacity :: int
  refill_rate :: real
  tokens :: real
  last_refill :: real

definition TokenBucket_init :: "real \<Rightarrow> int \<Rightarrow> real \<Rightarrow> TokenBucket" where
  "TokenBucket_init now cap rate =
     \<lparr> capacity = cap, refill_rate = rate, tokens = of_int cap, last_refill = now \<rparr>"

definition refill :: "real \<Rightarrow> TokenBucket \<Rightarrow> TokenBucket" where
  "refill now tb =
     (let elapsed = now - last_refill tb;
          tokens_to_add = elapsed * refill_rate tb
      in tb\<lparr> tokens := min (of_int (capacity tb)) (tokens tb + tokens_to_add),
              last_refill := now \<rparr>)"

text \<open>\<^verbatim>\<open>TokenBucket.acquire(tokens)\<close>; the requested number is \<open>n\<close>.\<close>

definition acquire :: "real \<Rightarrow> int \<Rightarrow> TokenBucket \<Rightarrow> bool \<times> TokenBucket" where
  "acquire now n tb =
     (let tb1 = refill now tb
      in if tokens tb1 \<ge> of_int n
         then (True, tb1\<lparr> tokens := tokens tb1 - of_int n \<rparr>)
         else (False, tb1))"

text \<open>A finite sequence of \<open>acquire\<close> calls, each with the clock reading at which it
  runs and the number of tokens it asks for. The first component of the result is the
  sum of the tokens handed out by the successful calls.\<close>

fun acquire_seq :: "TokenBucket \<Rightarrow> (real \<times> int) list \<Rightarrow> int \<times> TokenBucket" where
  "acquire_seq tb [] = (0, tb)"
| "acquire_seq tb ((now, n) # rest) =
     (case acquire now n tb of (ok, tb1) \<Rightarrow>
        (case acquire_seq tb1 rest of (consumed, tb2) \<Rightarrow>
           ((if ok then n else 0) + consumed, tb2)))"

subsection \<open>RateLimiter\<close>

record RateLimitConfig =
  global_max_requests_per_minute :: int
  user_max_requests_per_minute :: int
  user_daily_quota_usd :: "real option"
  session_budget_usd :: "real option"

record RateLimiter =
  rl_config :: RateLimitConfig
  global_limiter :: TokenBucket
  user_limiters :: "string \<rightharpoonup> TokenBucket"
  user_quotas :: "string \<rightharpoonup> real"
  user_quota_reset :: "string \<rightharpoonup> real"
  session_costs :: "string \<rightharpoonup> real"










subsection \<open>Example breakers\<close>

text \<open>A breaker with the defaults of the orchestrator that was created at time 0 and opened
  at time 100 after five failures, and the same breaker while it probes (HALF_OPEN) from
  time 160 on.\<close>

definition open_breaker :: CircuitBreaker where
  "open_breaker =
     (CircuitBreaker_init 0 5 60 2 Exception)
       \<lparr> state := OPEN, failure_count := 5, last_failure_time := Some 100,
         last_state_change := 100, total_calls := 5, total_failures := 5,
         state_history := [(CLOSED, 0), (OPEN, 100)] \<rparr>"

definition probing_breaker :: CircuitBreaker where
  "probing_breaker =
     open_breaker
       \<lparr> state := HALF_OPEN, last_state_change := 160, total_calls := 6,
         state_history := [(CLOSED, 0), (OPEN, 100), (HALF_OPEN, 160)] \<rparr>"

text \<open>Wrapped functions for the examples: the world is the clock, a call takes one second.\<close>

definition succeeding :: "real \<Rightarrow> (exn + unit) \<times> real" where
  "succeeding w = (Inr (), w + 1)"

definition failing :: "real \<Rightarrow> (exn + unit) \<times> real" where
  "failing w = (Inl LLMProviderAPIError, w + 1)"

text \<open>The probing breaker of a caller that passed
  \<^verbatim>\<open>expected_exception=LLMProviderError\<close>, and a wrapped function that raises
  \<^verbatim>\<open>ValueError\<close>, which is not a provider error.\<close>

definition selective_breaker :: CircuitBreaker where
  "selective_breaker = probing_breaker\<lparr> expected_exception := LLMProviderError \<rparr>"

definition raising_value_error :: "real \<Rightarrow> (exn + unit) \<times> real" where
  "raising_value_error w = (Inl ValueError, w + 1)"

section \<open>Responses and assessment records (\<^verbatim>\<open>core/models.py\<close>)\<close>

datatype ResponseQuality = EXCELLENT | GOOD | ACCEPTABLE | POOR | UNSAFE

text \<open>\<^verbatim>\<open>LLMResponse\<close>. Of the raw provider payload only the entry \<^verbatim>\<open>usage\<close> is read by
  the core: \<open>usage\<close> holds its \<^verbatim>\<open>prompt_tokens\<close> and \<^verbatim>\<open>completion_tokens\<close> when
  the payload has such an entry. Assignments to the fields of a response are not
  validated (the model class does not enable \<^verbatim>\<open>validate_assignment\<close>).\<close>

record LLMResponse =
  response_request_id :: string
  response_text :: string
  latency_ms :: real
  tokens_used :: int
  cost_usd :: real
  quality_score :: real
  quality_level :: ResponseQuality
  contains_harmful_content :: bool
  is_hallucination :: bool
  is_off_task :: bool
  provider :: string
  model :: string
  usage :: "(int \<times> int) option"
  response_timestamp :: real

text \<open>The warnings of an assessment are formatted strings in the source; here each
  carries the number that the string prints.\<close>

datatype warning =
    HighHallucinationProbability real
  | PotentialSafetyConcerns real
  | MayBeOffTask
  | LowQualityScore real

record QualityAssessment =
  assessment_request_id :: string
  hallucination_probability :: real
  safety_violations :: "string list"
  coherence_score :: real
  relevance_score :: real
  pass_validation :: bool
  recommended_action :: string
  warnings :: "warning list"

text \<open>\<^verbatim>\<open>QualityAssessment(request_id=...)\<close> with the defaults of the model.\<close>

definition QualityAssessment_init :: "string \<Rightarrow> QualityAssessment" where
  "QualityAssessment_init rid =
     \<lparr> assessment_request_id = rid, hallucination_probability = 0, safety_violations = [],
       coherence_score = 1, relevance_score = 1, pass_validation = True,
       recommended_action = ''accept'', warnings = [] \<rparr>"

text \<open>\<^verbatim>\<open>MonitoringAlert\<close>, with the entries of \<open>details\<close> that are numbers or levels.\<close>

record MonitoringAlert =
  alert_id :: string
  severity :: string
  category :: string
  alert_quality_score :: real
  alert_quality_level :: ResponseQuality
  alert_request_id :: "string option"
  resolved :: bool

record ValidationResult =
  is_valid :: bool
  errors :: "string list"
  validation_warnings :: "string list"
  validation_severity :: string

section \<open>Text functions of the Python library\<close>

text \<open>
  The detectors and validators look at texts only through functions of the Python
  library. Their results are parameters of the model:
  \<^item> \<open>re_search p s\<close>: \<^verbatim>\<open>re.search(p, s, re.IGNORECASE)\<close> finds a match;
  \<^item> \<open>split s\<close>: \<^verbatim>\<open>s.split()\<close>;
  \<^item> \<open>lower s\<close>: \<^verbatim>\<open>s.lower()\<close>;
  \<^item> \<open>findall_words s\<close>: \<^verbatim>\<open>re.findall(r"\b[a-z]+\b", s)\<close>;
  \<^item> \<open>contains s t\<close>: \<^verbatim>\<open>t in s\<close> for strings.
\<close>

record TextLib =
  re_search :: "string \<Rightarrow> string \<Rightarrow> bool"
  split :: "string \<Rightarrow> string list"
  lower :: "string \<Rightarrow> string"
  findall_words :: "string \<Rightarrow> string list"
  contains :: "string \<Rightarrow> string \<Rightarrow> bool"

text \<open>The backslash of the raw pattern strings.\<close>

definition bs :: string where
  "bs = [CHR 0x5C]"

section \<open>Quality monitoring (\<^verbatim>\<open>monitoring/quality_monitor.py\<close>)\<close>

subsection \<open>HallucinationDetector\<close>

definition hallucination_patterns :: "string list" where
  "hallucination_patterns =
     [ ''I apologize,?'' @ bs @ ''s+but I (don't|do not|cannot|can't) (actually|really)'',
       ''I (made up|invented|fabricated)'',
       ''I (don't|do not) have access to'',
       ''As an AI( language model)?,?'' @ bs @ ''s+I (can't|cannot|am unable to)'',
       ''I (don't|do not) have (real-time )?information'',
       ''my (training|knowledge) (data )?(cut-off|cutoff)'',
       ''I'm not (sure|certain|confident)'',
       ''I (may|might) be (wrong|incorrect|mistaken)'' ]"

definition check_patterns :: "TextLib \<Rightarrow> string \<Rightarrow> real" where
  "check_patterns lib txt =
     (let matches = length (filter (\<lambda>pattern. re_search lib pattern txt) hallucination_patterns)
      in min (of_nat matches * 0.3) 1.0)"

definition check_length :: "TextLib \<Rightarrow> string \<Rightarrow> real" where
  "check_length lib txt =
     (let word_count = length (split lib txt)
      in if word_count < 5 then 0.5
         else if word_count < 10 then 0.2
         else 0.0)"

text \<open>\<^verbatim>\<open>HallucinationDetector.detect\<close>.\<close>

definition hallucination_detect :: "TextLib \<Rightarrow> LLMResponse \<Rightarrow> real" where
  "hallucination_detect lib response =
     (let pattern_score = check_patterns lib (response_text response);
          length_score = check_length lib (response_text response);
          combined_score = 0.7 * pattern_score + 0.3 * length_score
      in min combined_score 1.0)"

subsection \<open>ContentSafetyChecker\<close>

definition harmful_categories :: "(string \<times> string list) list" where
  "harmful_categories =
     [ (''violence'',
         [ bs @ ''b(kill|murder|assault|attack|weapon|gun|knife|bomb)'' @ bs @ ''b'',
           bs @ ''b(hurt|harm|injure|wound)'' @ bs @ ''b'' ]),
       (''hate_speech'',
         [ bs @ ''b(hate|racist|sexist|homophobic|xenophobic)'' @ bs @ ''b'',
           bs @ ''b(slur|derogatory|discriminat)'' @ bs @ ''w*'' @ bs @ ''b'' ]),
       (''self_harm'',
         [ bs @ ''b(suicide|self[- ]harm|cut(ting)? (myself|yourself))'' @ bs @ ''b'',
           bs @ ''b(end (my|your) life|kill (myself|yourself))'' @ bs @ ''b'' ]),
       (''sexual_content'',
         [ bs @ ''b(explicit|pornograph|sexual)'' @ bs @ ''b.*'' @ bs @ ''b(content|material)''
             @ bs @ ''b'' ]),
       (''illegal_activity'',
         [ bs @ ''b(illegal|unlawful|criminal)'' @ bs @ ''b.*'' @ bs @ ''b(activity|action)''
             @ bs @ ''b'',
           bs @ ''b(hack|exploit|steal|fraud)'' @ bs @ ''b'' ]) ]"

record SafetyResults =
  is_safe :: bool
  violations :: "string list"
  risk_score :: real
  details :: "(string \<times> real) list"

definition check_category :: "TextLib \<Rightarrow> string \<Rightarrow> string list \<Rightarrow> real" where
  "check_category lib txt patterns =
     (let matches = length (filter (\<lambda>pattern. re_search lib pattern txt) patterns)
      in min (of_nat matches * 0.4) 1.0)"

text \<open>The body of the loop of \<^verbatim>\<open>check_safety\<close> over the categories.\<close>

definition check_safety_step ::
  "TextLib \<Rightarrow> string \<Rightarrow> SafetyResults \<Rightarrow> string \<times> string list \<Rightarrow> SafetyResults" where
  "check_safety_step lib txt results cat =
     (let score = check_category lib txt (snd cat);
          results1 = results\<lparr> details := details results @ [(fst cat, score)] \<rparr>
      in if score > 0.5
         then results1\<lparr> is_safe := False,
                        violations := violations results1 @ [fst cat],
                        risk_score := max (risk_score results1) score \<rparr>
         else results1)"

definition check_safety :: "TextLib \<Rightarrow> LLMResponse \<Rightarrow> SafetyResults" where
  "check_safety lib response =
     foldl (check_safety_step lib (response_text response))
       \<lparr> is_safe = True, violations = [], risk_score = 0.0, details = [] \<rparr>
       harmful_categories"

subsection \<open>OffTaskDetector\<close>

definition stop_words :: "string list" where
  "stop_words =
     [ ''the'', ''a'', ''an'', ''and'', ''or'', ''but'', ''in'', ''on'', ''at'', ''to'',
       ''for'', ''of'', ''with'', ''by'', ''from'', ''as'', ''is'', ''was'', ''are'',
       ''were'', ''be'', ''been'', ''being'', ''have'', ''has'', ''had'', ''do'', ''does'',
       ''did'', ''will'', ''would'', ''could'', ''should'', ''may'', ''might'', ''can'',
       ''this'', ''that'', ''these'', ''those'', ''i'', ''you'', ''he'', ''she'', ''it'',
       ''we'', ''they'', ''what'', ''which'', ''who'', ''when'', ''where'', ''why'',
       ''how'' ]"

definition extract_keywords :: "TextLib \<Rightarrow> string \<Rightarrow> string set" where
  "extract_keywords lib txt =
     (let words = findall_words lib (lower lib txt)
      in set (filter (\<lambda>word. word \<notin> set stop_words \<and> length word > 3) words))"

text \<open>\<^verbatim>\<open>OffTaskDetector.detect\<close>; the monitor creates the detector with the default
  \<open>similarity_threshold = 0.6\<close>.\<close>

definition similarity_threshold :: real where
  "similarity_threshold = 0.6"

definition off_task_detect :: "TextLib \<Rightarrow> LLMResponse \<Rightarrow> RequestContext \<Rightarrow> bool" where
  "off_task_detect lib response ctx =
     (let prompt_keywords = extract_keywords lib (prompt ctx);
          response_keywords = extract_keywords lib (response_text response)
      in if prompt_keywords = {} then False
         else (let overlap = real (card (prompt_keywords \<inter> response_keywords))
                             / real (card prompt_keywords)
               in overlap < similarity_threshold))"

subsection \<open>QualityMonitor\<close>

record QualityMonitor =
  quality_alert_threshold :: real
  quality_history :: "real list"
  active_alerts :: "MonitoringAlert list"

text \<open>\<^verbatim>\<open>deque(maxlen=n).append(x)\<close>: a full deque drops its oldest entry.\<close>

definition deque_append :: "nat \<Rightarrow> 'a list \<Rightarrow> 'a \<Rightarrow> 'a list" where
  "deque_append maxlen d x = (let d1 = d @ [x] in drop (length d1 - maxlen) d1)"

definition calculate_quality_score :: "real \<Rightarrow> real \<Rightarrow> bool \<Rightarrow> int \<Rightarrow> real" where
  "calculate_quality_score hallucination_score safety_risk off_task response_length =
     (let base_score = 1.0;
          base_score = base_score - hallucination_score * 0.4;
          base_score = base_score - safety_risk * 0.5;
          base_score = (if off_task then base_score * 0.5 else base_score);
          base_score = (if response_length < 50 then base_score * 0.8 else base_score)
      in max 0.0 base_score)"

definition categorize_quality :: "real \<Rightarrow> ResponseQuality" where
  "categorize_quality score =
     (if score \<ge> 0.9 then EXCELLENT
      else if score \<ge> 0.75 then GOOD
      else if score \<ge> 0.6 then ACCEPTABLE
      else if score \<ge> 0.3 then POOR
      else UNSAFE)"

definition should_pass_validation :: "real \<Rightarrow> string list \<Rightarrow> bool \<Rightarrow> bool" where
  "should_pass_validation score viols hallucination =
     (if viols \<noteq> [] then False
      else if hallucination then False
      else if score < 0.5 then False
      else True)"

definition recommend_action :: "real \<Rightarrow> bool \<Rightarrow> string list \<Rightarrow> string" where
  "recommend_action score pass viols =
     (if viols \<noteq> [] then ''reject''
      else if \<not> pass then (if score < 0.3 then ''fallback'' else ''review'')
      else if score \<ge> 0.75 then ''accept''
      else ''review'')"

definition generate_warnings :: "real \<Rightarrow> real \<Rightarrow> bool \<Rightarrow> real \<Rightarrow> warning list" where
  "generate_warnings hallucination_score safety_risk off_task score =
     (if hallucination_score > 0.5 then [HighHallucinationProbability hallucination_score] else [])
     @ (if safety_risk > 0.3 then [PotentialSafetyConcerns safety_risk] else [])
     @ (if off_task then [MayBeOffTask] else [])
     @ (if score < 0.6 then [LowQualityScore score] else [])"

definition raise_quality_alert ::
  "LLMResponse \<Rightarrow> QualityAssessment \<Rightarrow> QualityMonitor \<Rightarrow> QualityMonitor" where
  "raise_quality_alert response assessment qm =
     (let alert = \<lparr> alert_id = ''alert-quality-'' @ response_request_id response,
                    severity = (if quality_score response < 0.3 then ''high'' else ''medium''),
                    category = ''quality'',
                    alert_quality_score = quality_score response,
                    alert_quality_level = quality_level response,
                    alert_request_id = Some (response_request_id response),
                    resolved = False \<rparr>
      in qm\<lparr> active_alerts := active_alerts qm @ [alert] \<rparr>)"

text \<open>\<^verbatim>\<open>QualityMonitor.assess_quality\<close>. The response is mutated in place, so the
  annotated response and the monitor are returned on both exits: with the assessment on
  the normal return, with the exception when the critical check at the end raises.\<close>

definition assess_quality ::
  "TextLib \<Rightarrow> LLMResponse \<Rightarrow> RequestContext \<Rightarrow> QualityMonitor
     \<Rightarrow> (exn + QualityAssessment) \<times> LLMResponse \<times> QualityMonitor" where
  "assess_quality lib response ctx qm =
     (let assessment = QualityAssessment_init (response_request_id response);
          hallucination_score = hallucination_detect lib response;
          assessment = assessment\<lparr> hallucination_probability := hallucination_score \<rparr>;
          response = response\<lparr> is_hallucination := hallucination_score > 0.7 \<rparr>;
          safety_results = check_safety lib response;
          response = response\<lparr> contains_harmful_content := \<not> is_safe safety_results \<rparr>;
          assessment = assessment\<lparr> safety_violations := violations safety_results \<rparr>;
          response = response\<lparr> is_off_task := off_task_detect lib response ctx \<rparr>;
          score = calculate_quality_score hallucination_score (risk_score safety_results)
                    (is_off_task response) (int (length (response_text response)));
          response = response\<lparr> quality_score := score \<rparr>;
          response = response\<lparr> quality_level := categorize_quality score \<rparr>;
          assessment = assessment\<lparr> coherence_score := 1.0 - hallucination_score \<rparr>;
          assessment = assessment\<lparr> relevance_score := (if is_off_task response then 0.0 else 1.0) \<rparr>;
          qm = qm\<lparr> quality_history := deque_append 1000 (quality_history qm) score \<rparr>;
          assessment = assessment\<lparr> pass_validation :=
                         should_pass_validation score (safety_violations assessment)
                           (is_hallucination response) \<rparr>;
          assessment = assessment\<lparr> recommended_action :=
                         recommend_action score (pass_validation assessment)
                           (safety_violations assessment) \<rparr>;
          assessment = assessment\<lparr> warnings :=
                         generate_warnings hallucination_score (risk_score safety_results)
                           (is_off_task response) score \<rparr>;
          qm = (if score < quality_alert_threshold qm
                then raise_quality_alert response assessment qm else qm)
      in if \<not> pass_validation assessment \<and> score < 0.3
         then (Inl QualityCheckFailedError, response, qm)
         else (Inr assessment, response, qm))"

subsection \<open>Example inputs for quality monitoring\<close>

text \<open>A library whose pattern search finds every hallucination pattern and no other
  pattern, and one whose search finds every pattern; both see no words in any text.\<close>

definition hallucinating_lib :: TextLib where
  "hallucinating_lib =
     \<lparr> re_search = (\<lambda>p s. p \<in> set hallucination_patterns), split = (\<lambda>s. []),
       lower = (\<lambda>s. s), findall_words = (\<lambda>s. []), contains = (\<lambda>s t. False) \<rparr>"

definition alarming_lib :: TextLib where
  "alarming_lib =
     \<lparr> re_search = (\<lambda>p s. True), split = (\<lambda>s. []),
       lower = (\<lambda>s. s), findall_words = (\<lambda>s. []), contains = (\<lambda>s t. False) \<rparr>"

definition example_response :: LLMResponse where
  "example_response =
     \<lparr> response_request_id = ''r1'', response_text = ''x'', latency_ms = 10,
       tokens_used = 5, cost_usd = 0.001, quality_score = 0, quality_level = ACCEPTABLE,
       contains_harmful_content = False, is_hallucination = False, is_off_task = False,
       provider = ''anthropic'', model = ''m'', usage = Some (2, 3),
       response_timestamp = 0 \<rparr>"

definition example_context :: RequestContext where
  "example_context =
     \<lparr> request_id = ''r1'', timestamp = 0, user_id = Some ''u'', session_id = Some ''s'',
       prompt = ''Hi!'', max_tokens = 1000, temperature = 0.7, allowed_topics = None,
       forbidden_patterns = None, max_cost_usd = None \<rparr>"

definition example_monitor :: QualityMonitor where
  "example_monitor =
     \<lparr> quality_alert_threshold = 0.6, quality_history = [], active_alerts = [] \<rparr>"

section \<open>Performance monitoring (\<^verbatim>\<open>monitoring/performance_monitor.py\<close>)\<close>

record PerformanceMetrics =
  metrics_request_id :: string
  metrics_latency_ms :: real
  tokens_prompt :: int
  tokens_completion :: int
  tokens_total :: int
  metrics_cost_usd :: real
  metrics_provider :: string
  metrics_model :: string
  metrics_timestamp :: real

text \<open>The performance monitor without its alert list and latency baselines: they are
  computed with numpy percentiles, never raise, and are read by nothing in the request
  pipeline.\<close>

record PerformanceMonitor =
  metrics_history :: "PerformanceMetrics list"
  pm_session_costs :: "string \<rightharpoonup> real"
  user_costs :: "string \<rightharpoonup> real"
  daily_cost_reset :: "string \<rightharpoonup> real"





section \<open>Validators (\<^verbatim>\<open>safety/validators.py\<close>)\<close>







section \<open>The world outside the orchestrator\<close>

text \<open>
  What the core neither owns nor computes is a parameter of the model (\<open>Env\<close>):
  \<^item> \<open>generate prov mdl ctx k\<close> is what the \<^verbatim>\<open>generate\<close> coroutine of the client
    registered under the name \<open>prov\<close> does when it is the \<open>k\<close>-th provider call since the
    start of the world: it returns a response or raises, and it takes some time;
  \<^item> \<open>random_value k\<close> is the \<open>k\<close>-th value of \<^verbatim>\<open>random.random()\<close>;
  \<^item> \<open>checkpoint_write_fails rid stage\<close> says whether writing the checkpoint file fails;
  \<^item> \<open>text_lib\<close> are the text functions of the Python library.

  The \<open>World\<close> is what changes outside the orchestrator object while a request runs:
  the clock (\<open>utcnow\<close> is what \<^verbatim>\<open>datetime.utcnow()\<close> reads; it advances while a
  provider call or a sleep is awaited), the provider calls made so far with the provider
  name and the model of each, the number of random values drawn, and the checkpoint files
  with the stage each records.
\<close>

record Env =
  text_lib :: TextLib
  generate :: "string \<Rightarrow> string \<Rightarrow> RequestContext \<Rightarrow> nat \<Rightarrow> (exn + LLMResponse) \<times> real"
  random_value :: "nat \<Rightarrow> real"
  checkpoint_write_fails :: "string \<Rightarrow> string \<Rightarrow> bool"

record World =
  utcnow :: real
  generate_calls :: "(string \<times> string) list"
  random_draws :: nat
  checkpoints :: "string \<rightharpoonup> string"

section \<open>Retry (\<^verbatim>\<open>recovery/retry_manager.py\<close>)\<close>

record RetryStrategy =
  max_attempts :: int
  initial_delay :: real
  max_delay :: real
  exponential_base :: real
  jitter :: bool

text \<open>\<^verbatim>\<open>RetryStrategy.get_delay\<close>; \<open>rnd\<close> is the value of \<^verbatim>\<open>random.random()\<close> it draws
  when jitter is enabled.\<close>

definition get_delay :: "RetryStrategy \<Rightarrow> real \<Rightarrow> nat \<Rightarrow> real" where
  "get_delay strategy rnd attempt =
     (let delay = min (initial_delay strategy * exponential_base strategy ^ attempt)
                      (max_delay strategy)
      in if jitter strategy then delay * (0.5 + rnd * 0.5) else delay)"

definition retryable_errors :: "exn list" where
  "retryable_errors =
     [ConnectionError, TimeoutError, LLMProviderTimeoutError, LLMProviderRateLimitError]"

definition is_retryable :: "exn \<Rightarrow> bool" where
  "is_retryable e = list_ex (isinstance e) retryable_errors"

text \<open>\<^verbatim>\<open>asyncio.sleep(get_delay(attempt))\<close>, with the draw of the jitter.\<close>

definition backoff :: "Env \<Rightarrow> RetryStrategy \<Rightarrow> nat \<Rightarrow> World \<Rightarrow> World" where
  "backoff env strategy attempt w =
     (let delay = get_delay strategy (random_value env (random_draws w)) attempt
      in w\<lparr> utcnow := utcnow w + delay,
             random_draws := (if jitter strategy then Suc (random_draws w)
                              else random_draws w) \<rparr>)"

text \<open>The loop \<^verbatim>\<open>for attempt in range(max_attempts)\<close> of
  \<^verbatim>\<open>RetryManager.execute_with_retry\<close>: \<open>attempt\<close> is the loop variable and \<open>remaining\<close>
  the number of iterations left, \<open>max_attempts - attempt\<close>. Leaving the loop raises
  \<^verbatim>\<open>RetryExhaustedError\<close>.\<close>

fun retry_loop ::
  "Env \<Rightarrow> RetryStrategy \<Rightarrow> (World \<Rightarrow> (exn + 'a) \<times> World) \<Rightarrow> nat \<Rightarrow> nat \<Rightarrow> World
     \<Rightarrow> (exn + 'a) \<times> World" where
  "retry_loop env strategy func attempt 0 w = (Inl RetryExhaustedError, w)"
| "retry_loop env strategy func attempt (Suc remaining) w =
     (case func w of
        (Inr result, w1) \<Rightarrow> (Inr result, w1)
      | (Inl e, w1) \<Rightarrow>
          if is_retryable e then
            (if int attempt < max_attempts strategy - 1
             then retry_loop env strategy func (Suc attempt) remaining
                    (backoff env strategy attempt w1)
             else retry_loop env strategy func (Suc attempt) remaining w1)
          else (Inl e, w1))"

definition execute_with_retry ::
  "Env \<Rightarrow> RetryStrategy \<Rightarrow> (World \<Rightarrow> (exn + 'a) \<times> World) \<Rightarrow> World \<Rightarrow> (exn + 'a) \<times> World" where
  "execute_with_retry env strategy func w =
     retry_loop env strategy func 0 (nat (max_attempts strategy)) w"

section \<open>Audit log and checkpoints (\<^verbatim>\<open>recovery/audit_logger.py\<close>,
  \<^verbatim>\<open>recovery/state_manager.py\<close>)\<close>

text \<open>The \<open>context\<close> argument of \<^verbatim>\<open>log_error\<close> as the orchestrator passes it: nothing,
  the provider and model of the failed call, the result of the output validation, or the
  fallback marker with the original error.\<close>

datatype error_context =
    NoContext
  | ProviderContext string string
  | ValidationContext ValidationResult
  | FallbackAttempted exn

text \<open>An audit record: its event type with the payload that identifies it (request id;
  the logged response; request id, error type and context).\<close>

datatype AuditEvent =
    RequestEvent string
  | ResponseEvent LLMResponse
  | ErrorEvent string exn error_context


text \<open>The three kinds of audit records the orchestrator writes, as predicates.\<close>

fun is_request :: "AuditEvent \<Rightarrow> bool" where
  "is_request (RequestEvent rid) = True"
| "is_request ev = False"

fun is_response :: "AuditEvent \<Rightarrow> bool" where
  "is_response (ResponseEvent r) = True"
| "is_response ev = False"

fun is_error :: "AuditEvent \<Rightarrow> bool" where
  "is_error (ErrorEvent rid e c) = True"
| "is_error ev = False"


section \<open>The orchestrator (\<^verbatim>\<open>core/guardian.py\<close>)\<close>

record GuardianConfig =
  fallback_provider :: "string option"
  fallback_model :: "string option"
  enable_monitoring :: bool
  enable_safety_checks :: bool
  enable_recovery :: bool
  max_prompt_length :: int

text \<open>\<^verbatim>\<open>LLMGuardian\<close>: the components it creates in \<^verbatim>\<open>__init__\<close>. It has one circuit
  breaker. \<open>audit_log\<close> is the sequence of records the audit logger has written,
  \<open>llm_clients\<close> the provider names that have a client.\<close>

record LLMGuardian =
  config :: GuardianConfig
  quality_monitor :: QualityMonitor
  performance_monitor :: PerformanceMonitor
  circuit_breaker :: CircuitBreaker
  rate_limiter :: RateLimiter
  retry_strategy :: RetryStrategy
  audit_log :: "AuditEvent list"
  llm_clients :: "string list"

text \<open>\<^verbatim>\<open>AuditLogger.log_request\<close>, \<^verbatim>\<open>log_response\<close> and \<^verbatim>\<open>log_error\<close>: each appends
  one record of its event type. Writing a record is taken to succeed.\<close>

definition log_request :: "RequestContext \<Rightarrow> LLMGuardian \<Rightarrow> LLMGuardian" where
  "log_request ctx g = g\<lparr> audit_log := audit_log g @ [RequestEvent (request_id ctx)] \<rparr>"

definition log_response :: "LLMResponse \<Rightarrow> LLMGuardian \<Rightarrow> LLMGuardian" where
  "log_response response g = g\<lparr> audit_log := audit_log g @ [ResponseEvent response] \<rparr>"

definition log_error :: "string \<Rightarrow> exn \<Rightarrow> error_context \<Rightarrow> LLMGuardian \<Rightarrow> LLMGuardian" where
  "log_error rid e c g = g\<lparr> audit_log := audit_log g @ [ErrorEvent rid e c] \<rparr>"

text \<open>The inner coroutine \<^verbatim>\<open>_call_llm\<close> of \<^verbatim>\<open>LLMGuardian._execute_with_retry\<close>:
  \<^verbatim>\<open>_get_llm_client\<close> raises for a provider without a client, otherwise the client's
  \<^verbatim>\<open>generate\<close> is awaited.\<close>

definition call_llm ::
  "Env \<Rightarrow> LLMGuardian \<Rightarrow> RequestContext \<Rightarrow> string \<Rightarrow> string \<Rightarrow> World
     \<Rightarrow> (exn + LLMResponse) \<times> World" where
  "call_llm env g ctx prov mdl w =
     (if prov \<notin> set (llm_clients g) then (Inl UnsupportedProviderError, w)
      else (case generate env prov mdl ctx (length (generate_calls w)) of
              (outcome, duration) \<Rightarrow>
                (outcome, w\<lparr> utcnow := utcnow w + duration,
                             generate_calls := generate_calls w @ [(prov, mdl)] \<rparr>)))"

text \<open>\<^verbatim>\<open>LLMGuardian._execute_with_retry\<close>.\<close>

definition LLMGuardian_execute_with_retry ::
  "Env \<Rightarrow> LLMGuardian \<Rightarrow> RequestContext \<Rightarrow> string \<Rightarrow> string \<Rightarrow> World
     \<Rightarrow> (exn + LLMResponse) \<times> World" where
  "LLMGuardian_execute_with_retry env g ctx prov mdl w =
     execute_with_retry env (retry_strategy g) (call_llm env g ctx prov mdl) w"









subsection \<open>Example requests\<close>



















section \<open>Properties of the circuit breaker\<close>

lemma isinstance_Exception: "isinstance e Exception"
  by (cases e) (simp_all add: isinstance_def mro.simps)

lemma call_admit_probe:
  assumes "state cb = OPEN" and "call_admit now cb = (None, cb')"
  shows "state cb' = HALF_OPEN \<and> success_count cb' = 0 \<and> should_attempt_reset now cb"
  using assms
  by (auto simp add: call_admit_def transition_to_def should_attempt_reset_def Let_def
      split: if_splits option.splits)

lemma on_success_closed: "state cb = CLOSED \<Longrightarrow> state (on_success now cb) = CLOSED"
  by (simp add: on_success_def Let_def)

lemma on_success_half_open:
  "state cb = HALF_OPEN \<Longrightarrow>
   state (on_success now cb) =
     (if success_count cb + 1 < success_threshold cb then HALF_OPEN else CLOSED)
   \<and> (success_count cb + 1 < success_threshold cb
        \<longrightarrow> success_count (on_success now cb) = success_count cb + 1)
   \<and> success_threshold (on_success now cb) = success_threshold cb"
  by (simp add: on_success_def transition_to_def Let_def)

lemma call_success:
  assumes "state cb \<noteq> OPEN" and "\<not> isl (fst (f w))"
  shows "snd (snd (call clock f w cb)) =
     on_success (clock (snd (f w))) (cb\<lparr> total_calls := total_calls cb + 1 \<rparr>)"
  using assms
  by (cases "f w") (auto simp add: call_def call_admit_def Let_def split: sum.splits)

lemma call_seq_closed:
  assumes "state cb = CLOSED" and "\<forall>f\<in>set fs. \<forall>w. \<not> isl (fst (f w))"
  shows "state (snd (call_seq clock fs w cb)) = CLOSED"
  using assms
proof (induction fs arbitrary: w cb)
  case Nil
  then show ?case by simp
next
  case (Cons f fs)
  have "state (snd (snd (call clock f w cb))) = CLOSED"
    using Cons.prems by (simp add: call_success on_success_closed)
  then show ?case using Cons by (auto split: prod.splits)
qed

lemma call_seq_half_open:
  assumes "state cb = HALF_OPEN" and "\<forall>f\<in>set fs. \<forall>w. \<not> isl (fst (f w))" and "fs \<noteq> []"
  shows "state (snd (call_seq clock fs w cb)) =
     (if success_count cb + int (length fs) < success_threshold cb then HALF_OPEN else CLOSED)"
  using assms
proof (induction fs arbitrary: w cb)
  case Nil
  then show ?case by simp
next
  case (Cons f fs)
  obtain r w' cb' where c: "call clock f w cb = (r, w', cb')"
    by (cases "call clock f w cb") auto
  let ?cb1 = "cb\<lparr> total_calls := total_calls cb + 1 \<rparr>"
  have cb': "cb' = on_success (clock (snd (f w))) ?cb1"
    using call_success[of cb f w clock] Cons.prems c by simp
  have h: "state ?cb1 = HALF_OPEN" using Cons.prems by simp
  note os = on_success_half_open[OF h, of "clock (snd (f w))"]
  show ?case
  proof (cases "success_count cb + 1 < success_threshold cb")
    case True
    then have st: "state cb' = HALF_OPEN" and sc: "success_count cb' = success_count cb + 1"
      and th: "success_threshold cb' = success_threshold cb"
      using os cb' by auto
    show ?thesis
    proof (cases "fs = []")
      case True
      then show ?thesis using c st \<open>success_count cb + 1 < success_threshold cb\<close> by simp
    next
      case False
      then have "state (snd (call_seq clock fs w' cb')) =
         (if success_count cb' + int (length fs) < success_threshold cb'
          then HALF_OPEN else CLOSED)"
        using Cons.IH[OF st _ False] Cons.prems by simp
      then show ?thesis using c sc th by (simp add: algebra_simps)
    qed
  next
    case False
    then have st: "state cb' = CLOSED" using os cb' by auto
    have "state (snd (call_seq clock fs w' cb')) = CLOSED"
      using call_seq_closed[OF st, of fs clock w'] Cons.prems by simp
    then show ?thesis using c False by auto
  qed
qed

text \<open>
  C5. While a breaker is OPEN and less than \<open>recovery_timeout\<close> has passed since
  \<open>last_failure_time\<close>, \<open>call\<close> raises \<open>CircuitBreakerOpenError\<close> and does not invoke the
  wrapped function: whatever \<open>func\<close> is, the world it acts on is returned as it was, and
  the breaker stays OPEN. A call that arrives at an OPEN breaker and is let through has
  first moved the breaker to HALF_OPEN, which happens only once the recovery timeout has
  elapsed; so the wrapped function runs again only behind a HALF_OPEN probe.
\<close>

theorem C5_open_breaker_rejects:
  assumes "state cb = OPEN" and "last_failure_time cb = Some t"
  shows "(clock w - t < recovery_timeout cb \<longrightarrow>
            fst (call clock func w cb) = Inl CircuitBreakerOpenError
          \<and> fst (snd (call clock func w cb)) = w
          \<and> state (snd (snd (call clock func w cb))) = OPEN)
       \<and> (\<forall>cb'. call_admit (clock w) cb = (None, cb') \<longrightarrow>
            state cb' = HALF_OPEN \<and> recovery_timeout cb \<le> clock w - t)"
proof (intro conjI impI allI)
  assume "clock w - t < recovery_timeout cb"
  then have "call_admit (clock w) cb
      = (Some CircuitBreakerOpenError, cb\<lparr> total_calls := total_calls cb + 1 \<rparr>)"
    using assms by (simp add: call_admit_def should_attempt_reset_def)
  then have c: "call clock func w cb
      = (Inl CircuitBreakerOpenError, w, cb\<lparr> total_calls := total_calls cb + 1 \<rparr>)"
    by (simp add: call_def)
  show "fst (call clock func w cb) = Inl CircuitBreakerOpenError" using c by simp
  show "fst (snd (call clock func w cb)) = w" using c by simp
  show "state (snd (snd (call clock func w cb))) = OPEN" using c assms by simp
next
  fix cb'
  assume a: "call_admit (clock w) cb = (None, cb')"
  from call_admit_probe[OF assms(1) a]
  show "state cb' = HALF_OPEN" by simp
  from call_admit_probe[OF assms(1) a]
  show "recovery_timeout cb \<le> clock w - t"
    using assms(2) by (simp add: should_attempt_reset_def)
qed

theorem C5_open_breaker_rejects_witness:
  "state open_breaker = OPEN \<and> last_failure_time open_breaker = Some 100
   \<and> (130::real) - 100 < recovery_timeout open_breaker
   \<and> fst (call (\<lambda>w. w) succeeding 130 open_breaker) = Inl CircuitBreakerOpenError
   \<and> fst (snd (call (\<lambda>w. w) succeeding 130 open_breaker)) = 130
   \<and> fst (call_admit 160 open_breaker) = None
   \<and> state (snd (call_admit 160 open_breaker)) = HALF_OPEN"
proof -
  have h1: "state open_breaker = OPEN"
    by (simp add: open_breaker_def CircuitBreaker_init_def)
  have h2: "last_failure_time open_breaker = Some 100"
    by (simp add: open_breaker_def CircuitBreaker_init_def)
  have h3: "(130::real) - 100 < recovery_timeout open_breaker"
    by (simp add: open_breaker_def CircuitBreaker_init_def)
  have h4: "fst (call_admit 160 open_breaker) = None"
    by (simp add: call_admit_def should_attempt_reset_def open_breaker_def
        CircuitBreaker_init_def)
  then have h5: "call_admit 160 open_breaker = (None, snd (call_admit 160 open_breaker))"
    by (cases "call_admit 160 open_breaker") simp
  from C5_open_breaker_rejects[OF h1 h2, of "\<lambda>w. w" 130 succeeding] h3
  have a: "fst (call (\<lambda>w. w) succeeding 130 open_breaker) = Inl CircuitBreakerOpenError
         \<and> fst (snd (call (\<lambda>w. w) succeeding 130 open_breaker)) = 130"
    by simp
  from C5_open_breaker_rejects[OF h1 h2, of "\<lambda>w. w" 160 succeeding] h5
  have b: "state (snd (call_admit 160 open_breaker)) = HALF_OPEN"
    by blast
  show ?thesis using h1 h2 h3 h4 a b by simp
qed

text \<open>
  C6. In HALF_OPEN a single failure of the wrapped call moves the breaker to OPEN when
  the exception raised is an instance of the breaker's \<open>expected_exception\<close>; for a
  breaker created with the default, \<open>Exception\<close>, that is every exception. An exception
  outside that class passes through \<open>call\<close> unrecorded: the breaker is left as the
  admission left it, with only \<open>total_calls\<close> incremented, so such a failure neither
  re-opens the breaker nor resets the count of successes. A breaker enters HALF_OPEN with
  \<open>success_count = 0\<close>, and after \<open>n \<ge> 1\<close> successful calls in a row from a HALF_OPEN
  state it is CLOSED exactly when \<open>success_count + n\<close> has reached
  \<open>success_threshold\<close>: fewer successes leave it HALF_OPEN.
\<close>

theorem C6_half_open_fragility:
  assumes "state cb = HALF_OPEN"
  shows "(\<forall>w' e. func w = (Inl e, w') \<and> isinstance e (expected_exception cb) \<longrightarrow>
            state (snd (snd (call clock func w cb))) = OPEN)
       \<and> (expected_exception cb = Exception \<longrightarrow>
            (\<forall>w' e. func w = (Inl e, w') \<longrightarrow>
               state (snd (snd (call clock func w cb))) = OPEN))
       \<and> (\<forall>w' e. func w = (Inl e, w') \<and> \<not> isinstance e (expected_exception cb) \<longrightarrow>
            snd (snd (call clock func w cb)) = cb\<lparr> total_calls := total_calls cb + 1 \<rparr>)
       \<and> (\<forall>cb0 now. state cb0 = OPEN \<and> call_admit now cb0 = (None, cb) \<longrightarrow>
            success_count cb = 0)
       \<and> (fs \<noteq> [] \<and> (\<forall>f\<in>set fs. \<forall>v. \<not> isl (fst (f v))) \<longrightarrow>
            state (snd (call_seq clock fs w cb)) =
              (if success_count cb + int (length fs) < success_threshold cb
               then HALF_OPEN else CLOSED))"
proof (intro conjI impI allI)
  fix w' e
  assume "func w = (Inl e, w') \<and> isinstance e (expected_exception cb)"
  then show "state (snd (snd (call clock func w cb))) = OPEN"
    using assms
    by (simp add: call_def call_admit_def on_failure_def transition_to_def Let_def)
next
  fix w' e
  assume "expected_exception cb = Exception" and "func w = (Inl e, w')"
  then show "state (snd (snd (call clock func w cb))) = OPEN"
    using assms isinstance_Exception[of e]
    by (simp add: call_def call_admit_def on_failure_def transition_to_def Let_def)
next
  fix w' e
  assume "func w = (Inl e, w') \<and> \<not> isinstance e (expected_exception cb)"
  then show "snd (snd (call clock func w cb)) = cb\<lparr> total_calls := total_calls cb + 1 \<rparr>"
    using assms by (simp add: call_def call_admit_def Let_def)
next
  fix cb0 now
  assume "state cb0 = OPEN \<and> call_admit now cb0 = (None, cb)"
  then show "success_count cb = 0"
    using call_admit_probe[of cb0 now cb] by simp
next
  assume "fs \<noteq> [] \<and> (\<forall>f\<in>set fs. \<forall>v. \<not> isl (fst (f v)))"
  then show "state (snd (call_seq clock fs w cb)) =
      (if success_count cb + int (length fs) < success_threshold cb
       then HALF_OPEN else CLOSED)"
    using call_seq_half_open[OF assms, of fs clock w] by simp
qed

theorem C6_half_open_fragility_witness:
  "state probing_breaker = HALF_OPEN
   \<and> state (snd (snd (call (\<lambda>w. w) failing 161 probing_breaker))) = OPEN
   \<and> state (snd (snd (call (\<lambda>w. w) raising_value_error 161 probing_breaker))) = OPEN
   \<and> state (snd (call_seq (\<lambda>w. w) [succeeding] 161 probing_breaker)) = HALF_OPEN
   \<and> state (snd (call_seq (\<lambda>w. w) [succeeding, succeeding] 161 probing_breaker)) = CLOSED
   \<and> state selective_breaker = HALF_OPEN
   \<and> \<not> isinstance ValueError (expected_exception selective_breaker)
   \<and> snd (snd (call (\<lambda>w. w) raising_value_error 161 selective_breaker))
       = selective_breaker\<lparr> total_calls := 7 \<rparr>"
proof -
  have h: "state probing_breaker = HALF_OPEN"
    by (simp add: probing_breaker_def)
  have sc: "success_count probing_breaker = 0" "success_threshold probing_breaker = 2"
    "expected_exception probing_breaker = Exception"
    by (simp_all add: probing_breaker_def open_breaker_def CircuitBreaker_init_def)
  have f: "failing 161 = (Inl LLMProviderAPIError, 162)
      \<and> isinstance LLMProviderAPIError (expected_exception probing_breaker)"
    by (simp add: failing_def sc isinstance_Exception)
  have v: "raising_value_error 161 = (Inl ValueError, 162)"
    by (simp add: raising_value_error_def)
  have s: "\<forall>f\<in>set [succeeding, succeeding]. \<forall>v. \<not> isl (fst (f v))"
    "\<forall>f\<in>set [succeeding]. \<forall>v. \<not> isl (fst (f v))"
    by (simp_all add: succeeding_def)
  have h': "state selective_breaker = HALF_OPEN"
    by (simp add: selective_breaker_def probing_breaker_def)
  have n: "\<not> isinstance ValueError (expected_exception selective_breaker)"
    by (simp add: selective_breaker_def isinstance_def mro.simps)
  have tc: "total_calls selective_breaker = 6"
    by (simp add: selective_breaker_def probing_breaker_def)
  from C6_half_open_fragility[OF h, of failing 161 "\<lambda>w. w" "[succeeding]"] f s(2) sc
  have a: "state (snd (snd (call (\<lambda>w. w) failing 161 probing_breaker))) = OPEN"
    and b: "state (snd (call_seq (\<lambda>w. w) [succeeding] 161 probing_breaker)) = HALF_OPEN"
    by auto
  from C6_half_open_fragility[OF h, of raising_value_error 161 "\<lambda>w. w" "[succeeding, succeeding]"]
    s(1) sc v
  have a': "state (snd (snd (call (\<lambda>w. w) raising_value_error 161 probing_breaker))) = OPEN"
    and c: "state (snd (call_seq (\<lambda>w. w) [succeeding, succeeding] 161 probing_breaker)) = CLOSED"
    by auto
  from C6_half_open_fragility[OF h', of raising_value_error 161 "\<lambda>w. w" "[succeeding]"] v n tc
  have d: "snd (snd (call (\<lambda>w. w) raising_value_error 161 selective_breaker))
       = selective_breaker\<lparr> total_calls := 7 \<rparr>"
    by simp
  show ?thesis using h a a' b c h' n d by simp
qed

text \<open>
  C6 for every breaker and any failure does not hold. A HALF_OPEN breaker created with
  \<open>expected_exception = LLMProviderError\<close> stays HALF_OPEN when the wrapped call raises
  \<open>ValueError\<close>; and with \<open>success_threshold = 2\<close> the calls success, \<open>ValueError\<close>,
  success close it, although the two successes are not consecutive.
\<close>

theorem C6_counterexample:
  "state selective_breaker = HALF_OPEN
   \<and> success_threshold selective_breaker = 2
   \<and> fst (call (\<lambda>w. w) raising_value_error 161 selective_breaker) = Inl ValueError
   \<and> state (snd (snd (call (\<lambda>w. w) raising_value_error 161 selective_breaker))) = HALF_OPEN
   \<and> state (snd (call_seq (\<lambda>w. w) [succeeding, raising_value_error, succeeding] 161
               selective_breaker)) = CLOSED"
  by code_simp

text \<open>
  C9. When \<open>call\<close> rejects a call because the breaker is OPEN and the recovery timeout has
  not elapsed, the breaker it leaves behind is the one it found with \<open>total_calls\<close>
  incremented by one: \<open>state\<close>, \<open>failure_count\<close>, \<open>success_count\<close> and
  \<open>last_failure_time\<close> (and \<open>total_failures\<close>) are unchanged, so the rejection is not
  counted as a failure and does not extend the OPEN period.
\<close>

theorem C9_rejection_frame:
  assumes "state cb = OPEN" and "\<not> should_attempt_reset (clock w) cb"
  shows "fst (call clock func w cb) = Inl CircuitBreakerOpenError
       \<and> snd (snd (call clock func w cb)) = cb\<lparr> total_calls := total_calls cb + 1 \<rparr>
       \<and> state (snd (snd (call clock func w cb))) = state cb
       \<and> failure_count (snd (snd (call clock func w cb))) = failure_count cb
       \<and> success_count (snd (snd (call clock func w cb))) = success_count cb
       \<and> last_failure_time (snd (snd (call clock func w cb))) = last_failure_time cb
       \<and> total_failures (snd (snd (call clock func w cb))) = total_failures cb
       \<and> total_calls (snd (snd (call clock func w cb))) = total_calls cb + 1"
proof -
  have "call clock func w cb
      = (Inl CircuitBreakerOpenError, w, cb\<lparr> total_calls := total_calls cb + 1 \<rparr>)"
    using assms
    by (simp add: call_def call_admit_def should_attempt_reset_def Let_def
        split: option.splits)
  then show ?thesis by simp
qed

theorem C9_rejection_frame_witness:
  "state open_breaker = OPEN \<and> \<not> should_attempt_reset 130 open_breaker
   \<and> snd (snd (call (\<lambda>w. w) failing 130 open_breaker))
       = open_breaker\<lparr> total_calls := 6 \<rparr>
   \<and> last_failure_time (snd (snd (call (\<lambda>w. w) failing 130 open_breaker))) = Some 100"
proof -
  have h1: "state open_breaker = OPEN"
    by (simp add: open_breaker_def CircuitBreaker_init_def)
  have h2: "\<not> should_attempt_reset 130 open_breaker"
    by (simp add: should_attempt_reset_def open_breaker_def CircuitBreaker_init_def)
  have h3: "total_calls open_breaker = 5" "last_failure_time open_breaker = Some 100"
    by (simp_all add: open_breaker_def CircuitBreaker_init_def)
  from C9_rejection_frame[of open_breaker "\<lambda>w. w" 130 failing] h1 h2 h3
  show ?thesis by simp
qed

section \<open>Properties of the token bucket\<close>

lemma refill_frame:
  "capacity (refill now tb) = capacity tb" "refill_rate (refill now tb) = refill_rate tb"
  "last_refill (refill now tb) = now"
  "tokens (refill now tb) \<le> of_int (capacity tb)"
  by (simp_all add: refill_def Let_def)

lemma refill_gain:
  assumes "0 \<le> capacity tb" and "0 \<le> refill_rate tb" and "last_refill tb \<le> now"
  shows "max 0 (tokens (refill now tb))
           \<le> max 0 (tokens tb) + refill_rate tb * (now - last_refill tb)"
proof -
  have "0 \<le> refill_rate tb * (now - last_refill tb)" using assms by simp
  then show ?thesis by (simp add: refill_def Let_def mult.commute)
qed

lemma acquire_frame:
  assumes "acquire now n tb = (ok, tb1)"
  shows "capacity tb1 = capacity tb" and "refill_rate tb1 = refill_rate tb"
    and "last_refill tb1 = now"
    and "of_int (if ok then n else 0) + max 0 (tokens tb1) \<le> max 0 (tokens (refill now tb))"
  using assms by (auto simp add: acquire_def Let_def refill_frame split: if_splits)

lemma acquire_first:
  assumes "0 \<le> capacity tb" and "acquire now n tb = (ok, tb1)"
  shows "of_int (if ok then n else 0) + max 0 (tokens tb1) \<le> of_int (capacity tb)"
proof -
  have "max 0 (tokens (refill now tb)) \<le> of_int (capacity tb)"
    using assms(1) refill_frame(4)[of now tb] by simp
  then show ?thesis using acquire_frame(4)[OF assms(2)] by linarith
qed

text \<open>The invariant behind the conservation bound: what has been handed out plus what is
  left in the bucket never exceeds what was there at the start plus what the elapsed time
  has refilled. The first call of a sequence starts from at most a full bucket, whatever
  the bucket held before and however long it was idle, because its refill is capped at
  the capacity.\<close>

lemma acquire_seq_conservation:
  assumes "0 \<le> capacity tb" and "0 \<le> refill_rate tb"
    and "sorted (last_refill tb # map fst reqs)"
  shows "of_int (fst (acquire_seq tb reqs)) + max 0 (tokens (snd (acquire_seq tb reqs)))
           \<le> max 0 (tokens tb)
              + refill_rate tb * (last (last_refill tb # map fst reqs) - last_refill tb)"
  using assms
proof (induction reqs arbitrary: tb)
  case Nil
  then show ?case by simp
next
  case (Cons req reqs)
  obtain now n where req: "req = (now, n)" by (cases req)
  obtain ok tb1 where a: "acquire now n tb = (ok, tb1)" by (cases "acquire now n tb")
  have le: "last_refill tb \<le> now" using Cons.prems(3) req by simp
  note fr = acquire_frame[OF a]
  have srt: "sorted (last_refill tb1 # map fst reqs)"
    using Cons.prems(3) req fr(3) by simp
  have cap: "0 \<le> capacity tb1" and rate: "0 \<le> refill_rate tb1"
    using fr Cons.prems by simp_all
  note ih = Cons.IH[OF cap rate srt]
  obtain consumed tb2 where r: "acquire_seq tb1 reqs = (consumed, tb2)"
    by (cases "acquire_seq tb1 reqs")
  have eq: "acquire_seq tb (req # reqs) = ((if ok then n else 0) + consumed, tb2)"
    using req a r by simp
  have l: "last (last_refill tb # map fst (req # reqs)) = last (now # map fst reqs)"
    using req by simp
  have "of_int consumed + max 0 (tokens tb2)
          \<le> max 0 (tokens tb1) + refill_rate tb * (last (now # map fst reqs) - now)"
    using ih r fr by simp
  moreover have "of_int (if ok then n else 0) + max 0 (tokens tb1)
          \<le> max 0 (tokens tb) + refill_rate tb * (now - last_refill tb)"
    using fr(4) refill_gain[OF Cons.prems(1,2) le] by linarith
  ultimately have "of_int ((if ok then n else 0) + consumed) + max 0 (tokens tb2)
      \<le> max 0 (tokens tb) + refill_rate tb * (last (now # map fst reqs) - last_refill tb)"
    by (simp add: algebra_simps)
  then show ?case unfolding eq l by simp
qed

lemma acquire_seq_span:
  assumes "0 \<le> capacity tb" and "0 \<le> refill_rate tb" and "sorted (t # map fst reqs)"
  shows "of_int (fst (acquire_seq tb ((t, n) # reqs)))
           \<le> of_int (capacity tb) + refill_rate tb * (last (t # map fst reqs) - t)"
proof -
  obtain ok tb1 where a: "acquire t n tb = (ok, tb1)" by (cases "acquire t n tb")
  note fr = acquire_frame[OF a]
  obtain consumed tb2 where r: "acquire_seq tb1 reqs = (consumed, tb2)"
    by (cases "acquire_seq tb1 reqs")
  have "of_int consumed + max 0 (tokens tb2)
          \<le> max 0 (tokens tb1) + refill_rate tb * (last (t # map fst reqs) - t)"
    using acquire_seq_conservation[of tb1 reqs] assms fr r by simp
  moreover have "of_int (if ok then n else 0) + max 0 (tokens tb1) \<le> of_int (capacity tb)"
    using acquire_first[OF assms(1) a] .
  ultimately have "of_int ((if ok then n else 0) + consumed)
      \<le> of_int (capacity tb) + refill_rate tb * (last (t # map fst reqs) - t)"
    by simp
  then show ?thesis using a r by simp
qed

lemma example_acquire_seq:
  "acquire_seq (TokenBucket_init 0 2 (1/2))
       [(100, 1), (100, 1), (100, 1), (104, 2), (104, 1)]
     = (4, \<lparr>capacity = 2, refill_rate = 1 / 2, tokens = 0, last_refill = 104\<rparr>)"
  by (simp add: TokenBucket_init_def acquire_def refill_def Let_def)

text \<open>
  C7. For a token bucket in any state with capacity \<open>c \<ge> 0\<close> and refill rate
  \<open>r \<ge> 0\<close>, and any non-empty finite sequence of \<open>acquire\<close> calls whose clock readings
  do not go backwards, the tokens handed out by the successful calls sum to at most
  \<open>c + r \<cdot> t\<close>, where \<open>t\<close> is the time from the first call of the sequence to the
  last. An \<open>acquire\<close> that returns false leaves the bucket as the refill left it,
  without subtracting anything; the count it leaves is not below the count it found (for
  a count within the capacity, a non-negative rate and a clock that has not gone
  backwards).
\<close>

theorem C7_token_bucket_conservation:
  assumes "0 \<le> capacity tb" and "0 \<le> refill_rate tb"
    and "reqs \<noteq> []" and "sorted (map fst reqs)"
  shows "of_int (fst (acquire_seq tb reqs))
           \<le> of_int (capacity tb) + refill_rate tb * (fst (last reqs) - fst (hd reqs))
       \<and> (\<forall>now n tb. \<not> fst (acquire now n tb) \<longrightarrow>
             snd (acquire now n tb) = refill now tb
           \<and> (tokens tb \<le> of_int (capacity tb) \<and> 0 \<le> refill_rate tb
                \<and> last_refill tb \<le> now
                \<longrightarrow> tokens tb \<le> tokens (snd (acquire now n tb))))"
proof (intro conjI allI impI)
  obtain t n rest where reqs: "reqs = (t, n) # rest"
    using assms(3) by (cases reqs) auto
  have l: "fst (last reqs) = last (t # map fst rest)"
    unfolding reqs by (simp add: last_map)
  have "of_int (fst (acquire_seq tb ((t, n) # rest)))
           \<le> of_int (capacity tb) + refill_rate tb * (last (t # map fst rest) - t)"
    by (rule acquire_seq_span) (use assms reqs in simp_all)
  then show "of_int (fst (acquire_seq tb reqs))
      \<le> of_int (capacity tb) + refill_rate tb * (fst (last reqs) - fst (hd reqs))"
    unfolding l unfolding reqs by simp
next
  fix now n tb
  assume f: "\<not> fst (acquire now n tb)"
  then show eq: "snd (acquire now n tb) = refill now tb"
    by (simp add: acquire_def Let_def split: if_splits)
  assume "tokens tb \<le> of_int (capacity tb) \<and> 0 \<le> refill_rate tb \<and> last_refill tb \<le> now"
  then show "tokens tb \<le> tokens (snd (acquire now n tb))"
    unfolding eq by (simp add: refill_def Let_def)
qed

theorem C7_token_bucket_conservation_witness:
  "capacity (TokenBucket_init 0 2 (1/2)) = 2 \<and> refill_rate (TokenBucket_init 0 2 (1/2)) = 1/2
   \<and> sorted (map fst [(100::real, 1::int), (100, 1), (100, 1), (104, 2), (104, 1)])
   \<and> fst (acquire_seq (TokenBucket_init 0 2 (1/2))
             [(100, 1), (100, 1), (100, 1), (104, 2), (104, 1)]) = 4
   \<and> real_of_int (fst (acquire_seq (TokenBucket_init 0 2 (1/2))
             [(100, 1), (100, 1), (100, 1), (104, 2), (104, 1)])) \<le> 2 + 1/2 * (104 - 100)
   \<and> fst (acquire_seq (TokenBucket_init 0 2 (1/2)) [(100, 50)]) = 0
   \<and> \<not> fst (acquire 0 1 \<lparr>capacity = 2, refill_rate = 1 / 2, tokens = 0, last_refill = 0\<rparr>)
   \<and> snd (acquire 0 1 \<lparr>capacity = 2, refill_rate = 1 / 2, tokens = 0, last_refill = 0\<rparr>)
       = \<lparr>capacity = 2, refill_rate = 1 / 2, tokens = 0, last_refill = 0\<rparr>"
proof -
  let ?reqs = "[(100::real, 1::int), (100, 1), (100, 1), (104, 2), (104, 1)]"
  let ?b = "TokenBucket_init 0 2 (1/2)"
  let ?tb = "\<lparr>capacity = 2, refill_rate = 1 / 2, tokens = 0, last_refill = 0\<rparr>"
  have c: "capacity ?b = 2" "refill_rate ?b = 1/2"
    by (simp_all add: TokenBucket_init_def)
  have h: "0 \<le> capacity ?b" "0 \<le> refill_rate ?b" "?reqs \<noteq> []" "sorted (map fst ?reqs)"
    by (simp_all add: TokenBucket_init_def)
  have f: "\<not> fst (acquire 0 1 ?tb)"
    by (simp add: acquire_def refill_def Let_def)
  have big: "fst (acquire_seq ?b [(100, 50)]) = 0"
    by (simp add: TokenBucket_init_def acquire_def refill_def Let_def)
  note c7 = C7_token_bucket_conservation[OF h]
  from c7 have b: "real_of_int (fst (acquire_seq ?b ?reqs)) \<le> 2 + 1/2 * (104 - 100)"
    unfolding c by simp
  from c7 f have "snd (acquire 0 1 ?tb) = refill 0 ?tb"
    by blast
  then have s: "snd (acquire 0 1 ?tb) = ?tb"
    by (simp add: refill_def Let_def)
  show ?thesis using c h f b s big example_acquire_seq by simp
qed

section \<open>Properties of quality monitoring\<close>

lemma check_safety_text [simp]:
  "check_safety lib (r\<lparr> is_hallucination := b \<rparr>) = check_safety lib r"
  by (simp add: check_safety_def)

lemma off_task_detect_text [simp]:
  "off_task_detect lib (r\<lparr> is_hallucination := b \<rparr>) ctx = off_task_detect lib r ctx"
  "off_task_detect lib (r\<lparr> contains_harmful_content := b \<rparr>) ctx = off_task_detect lib r ctx"
  by (simp_all add: off_task_detect_def)

lemma assess_quality_response:
  "fst (snd (assess_quality lib response ctx qm)) =
     response\<lparr> is_hallucination := hallucination_detect lib response > 0.7,
               contains_harmful_content := \<not> is_safe (check_safety lib response),
               is_off_task := off_task_detect lib response ctx,
               quality_score := calculate_quality_score (hallucination_detect lib response)
                  (risk_score (check_safety lib response)) (off_task_detect lib response ctx)
                  (int (length (response_text response))),
               quality_level := categorize_quality (calculate_quality_score (hallucination_detect lib response)
                  (risk_score (check_safety lib response)) (off_task_detect lib response ctx)
                  (int (length (response_text response)))) \<rparr>"
  by (simp add: assess_quality_def Let_def)

lemma assess_quality_history:
  "quality_history (snd (snd (assess_quality lib response ctx qm))) =
     deque_append 1000 (quality_history qm)
       (calculate_quality_score (hallucination_detect lib response)
          (risk_score (check_safety lib response)) (off_task_detect lib response ctx)
          (int (length (response_text response))))"
  by (simp add: assess_quality_def Let_def raise_quality_alert_def)

lemma assess_quality_outcome:
  "fst (assess_quality lib response ctx qm) = Inl e \<longleftrightarrow>
     e = QualityCheckFailedError
   \<and> \<not> should_pass_validation
            (calculate_quality_score (hallucination_detect lib response)
               (risk_score (check_safety lib response)) (off_task_detect lib response ctx)
               (int (length (response_text response))))
            (violations (check_safety lib response)) (hallucination_detect lib response > 0.7)
   \<and> calculate_quality_score (hallucination_detect lib response)
               (risk_score (check_safety lib response)) (off_task_detect lib response ctx)
               (int (length (response_text response))) < 0.3"
  by (simp add: assess_quality_def Let_def) blast

lemma assess_quality_returns:
  "fst (assess_quality lib response ctx qm) = Inr a \<Longrightarrow>
     hallucination_probability a = hallucination_detect lib response"
  by (simp add: assess_quality_def Let_def split: if_splits) auto

lemma last_deque_append: "0 < n \<Longrightarrow> last (deque_append n d x) = x"
  by (simp add: deque_append_def Let_def)

lemma length_hallucination_patterns: "length hallucination_patterns = 8"
  by (simp add: hallucination_patterns_def)

lemma hallucinating_detect: "hallucination_detect hallucinating_lib r = 0.85"
  by (simp add: hallucination_detect_def check_patterns_def check_length_def hallucinating_lib_def Let_def
      length_hallucination_patterns)

lemma alarming_detect: "hallucination_detect alarming_lib r = 0.85"
  by (simp add: hallucination_detect_def check_patterns_def check_length_def alarming_lib_def Let_def
      length_hallucination_patterns)

lemma bs_notin: "bs @ s \<notin> set hallucination_patterns"
  by (simp add: hallucination_patterns_def bs_def)

lemma hallucinating_safety: "check_safety hallucinating_lib r =
   \<lparr>is_safe = True, violations = [], risk_score = 0,
    details = [(''violence'', 0), (''hate_speech'', 0), (''self_harm'', 0),
       (''sexual_content'', 0), (''illegal_activity'', 0)]\<rparr>"
  by (simp add: check_safety_def check_safety_step_def check_category_def harmful_categories_def
      hallucinating_lib_def Let_def bs_notin)

lemma alarming_safety: "check_safety alarming_lib r =
   \<lparr>is_safe = False, violations = [''violence'', ''hate_speech'', ''self_harm'', ''illegal_activity''],
    risk_score = 0.8,
    details = [(''violence'', 0.8), (''hate_speech'', 0.8), (''self_harm'', 0.8),
       (''sexual_content'', 0.4), (''illegal_activity'', 0.8)]\<rparr>"
  by (simp add: check_safety_def check_safety_step_def check_category_def harmful_categories_def
      alarming_lib_def Let_def)

lemma hallucinating_off_task: "off_task_detect hallucinating_lib r c = False"
  by (simp add: off_task_detect_def extract_keywords_def Let_def hallucinating_lib_def)

lemma alarming_off_task: "off_task_detect alarming_lib r c = False"
  by (simp add: off_task_detect_def extract_keywords_def Let_def alarming_lib_def)


text \<open>
  C8. When \<open>assess_quality\<close> returns normally, the \<open>quality_level\<close> written on the
  response is the category of the \<open>quality_score\<close> written on it under the thresholds
  0.9 (excellent), 0.75 (good), 0.6 (acceptable), 0.3 (poor), below that unsafe; and when
  the response is marked \<open>is_hallucination\<close>, the hallucination probability that the
  detector computed, which the assessment records, is above 0.7.
\<close>

theorem C8_annotation_completeness:
  assumes "assess_quality lib response ctx qm = (Inr assessment, response', qm')"
  shows "quality_level response' =
           (if quality_score response' \<ge> 0.9 then EXCELLENT
            else if quality_score response' \<ge> 0.75 then GOOD
            else if quality_score response' \<ge> 0.6 then ACCEPTABLE
            else if quality_score response' \<ge> 0.3 then POOR
            else UNSAFE)
       \<and> hallucination_probability assessment = hallucination_detect lib response
       \<and> (is_hallucination response' \<longrightarrow> hallucination_probability assessment > 0.7)"
proof -
  have r: "response' = fst (snd (assess_quality lib response ctx qm))"
    using assms by simp
  have a: "hallucination_probability assessment = hallucination_detect lib response"
    using assess_quality_returns[of lib response ctx qm assessment] assms by simp
  have "quality_level response' = categorize_quality (quality_score response')"
    unfolding r assess_quality_response by simp
  moreover have "is_hallucination response' \<longleftrightarrow> hallucination_detect lib response > 0.7"
    unfolding r assess_quality_response by simp
  ultimately show ?thesis using a by (simp add: categorize_quality_def)
qed

lemma example_normal_return:
  "assess_quality hallucinating_lib example_response example_context example_monitor =
    (Inr \<lparr>assessment_request_id = ''r1'', hallucination_probability = 17 / 20,
         safety_violations = [], coherence_score = 3 / 20,
         relevance_score = 1, pass_validation = False,
         recommended_action = ''review'',
         warnings = [HighHallucinationProbability (17 / 20), LowQualityScore (66 / 125)]\<rparr>,
     example_response\<lparr> quality_score := 66 / 125, quality_level := POOR, is_hallucination := True \<rparr>,
     \<lparr> quality_alert_threshold = 0.6, quality_history = [66/125],
       active_alerts = [\<lparr> alert_id = ''alert-quality-r1'', severity = ''medium'', category = ''quality'',
          alert_quality_score = 66/125, alert_quality_level = POOR, alert_request_id = Some ''r1'',
          resolved = False \<rparr>] \<rparr>)"
  by (simp add: assess_quality_def hallucinating_off_task hallucinating_detect hallucinating_safety
       Let_def calculate_quality_score_def categorize_quality_def example_response_def example_monitor_def
       QualityAssessment_init_def deque_append_def should_pass_validation_def recommend_action_def
       generate_warnings_def raise_quality_alert_def)

theorem C8_annotation_completeness_witness:
  "fst (assess_quality hallucinating_lib example_response example_context example_monitor)
     = Inr \<lparr>assessment_request_id = ''r1'', hallucination_probability = 17 / 20,
         safety_violations = [], coherence_score = 3 / 20,
         relevance_score = 1, pass_validation = False,
         recommended_action = ''review'',
         warnings = [HighHallucinationProbability (17 / 20), LowQualityScore (66 / 125)]\<rparr>
   \<and> quality_score (fst (snd (assess_quality hallucinating_lib example_response example_context example_monitor))) = 66 / 125
   \<and> quality_level (fst (snd (assess_quality hallucinating_lib example_response example_context example_monitor))) = POOR
   \<and> is_hallucination (fst (snd (assess_quality hallucinating_lib example_response example_context example_monitor)))
   \<and> hallucination_detect hallucinating_lib example_response > 0.7"
proof -
  note c8 = C8_annotation_completeness[OF example_normal_return]
  have "hallucination_detect hallucinating_lib example_response > 0.7"
    using c8 by simp
  moreover have "quality_level (example_response\<lparr> quality_score := 66 / 125, quality_level := POOR,
      is_hallucination := True \<rparr>) = POOR"
    using c8 by simp
  ultimately show ?thesis by (simp add: example_normal_return)
qed

text \<open>
  C10. Whatever the exit of \<open>assess_quality\<close>, the response it leaves behind carries
  \<open>is_hallucination\<close>, \<open>contains_harmful_content\<close>, \<open>is_off_task\<close>, \<open>quality_score\<close>
  and \<open>quality_level\<close> as computed from the detectors, and the score is the newest
  entry of the quality history. The exit is \<open>QualityCheckFailedError\<close> exactly when
  validation does not pass and the score is below 0.3; so on that path the annotations
  are the ones of the normal return, and nothing is undone when the error is raised.
\<close>

theorem C10_error_path_annotated:
  assumes "assess_quality lib response ctx qm = (out, response', qm')"
  shows "(let h = hallucination_detect lib response;
              sr = check_safety lib response;
              ot = off_task_detect lib response ctx;
              score = calculate_quality_score h (risk_score sr) ot
                        (int (length (response_text response)))
          in response' = response\<lparr> is_hallucination := h > 0.7,
                                   contains_harmful_content := \<not> is_safe sr,
                                   is_off_task := ot,
                                   quality_score := score,
                                   quality_level := categorize_quality score \<rparr>
           \<and> quality_history qm' = deque_append 1000 (quality_history qm) score
           \<and> last (quality_history qm') = score
           \<and> (\<forall>e. out = Inl e \<longleftrightarrow>
                 e = QualityCheckFailedError
               \<and> \<not> should_pass_validation score (violations sr) (h > 0.7) \<and> score < 0.3))"
proof -
  have r: "response' = fst (snd (assess_quality lib response ctx qm))"
    and q: "qm' = snd (snd (assess_quality lib response ctx qm))"
    and out: "out = fst (assess_quality lib response ctx qm)"
    using assms by simp_all
  show ?thesis
    unfolding Let_def r q out assess_quality_response assess_quality_history
    using assess_quality_outcome[of lib response ctx qm]
    by (simp add: last_deque_append)
qed

lemma example_raise:
  "assess_quality alarming_lib example_response example_context example_monitor =
    (Inl QualityCheckFailedError,
     example_response\<lparr> quality_score := 26 / 125, quality_level := UNSAFE, is_hallucination := True,
        contains_harmful_content := True \<rparr>,
     \<lparr> quality_alert_threshold = 0.6, quality_history = [26/125],
       active_alerts = [\<lparr> alert_id = ''alert-quality-r1'', severity = ''high'', category = ''quality'',
          alert_quality_score = 26/125, alert_quality_level = UNSAFE, alert_request_id = Some ''r1'',
          resolved = False \<rparr>] \<rparr>)"
  by (simp add: assess_quality_def alarming_off_task alarming_detect alarming_safety
       Let_def calculate_quality_score_def categorize_quality_def example_response_def example_monitor_def
       QualityAssessment_init_def deque_append_def should_pass_validation_def recommend_action_def
       generate_warnings_def raise_quality_alert_def)

theorem C10_error_path_annotated_witness:
  "fst (assess_quality alarming_lib example_response example_context example_monitor)
     = Inl QualityCheckFailedError
   \<and> fst (snd (assess_quality alarming_lib example_response example_context example_monitor))
     = example_response\<lparr> is_hallucination := True, contains_harmful_content := True,
         is_off_task := False, quality_score := 26 / 125, quality_level := UNSAFE \<rparr>
   \<and> quality_history (snd (snd (assess_quality alarming_lib example_response example_context
         example_monitor))) = [26 / 125]"
proof -
  have s: "calculate_quality_score (17/20) (4/5) False (int (length (response_text example_response))) = 26 / 125"
    by (simp add: calculate_quality_score_def example_response_def)
  from C10_error_path_annotated[OF example_raise]
  have "example_response\<lparr> quality_score := 26 / 125, quality_level := UNSAFE, is_hallucination := True,
        contains_harmful_content := True \<rparr>
     = example_response\<lparr> is_hallucination := True, contains_harmful_content := True,
         is_off_task := False, quality_score := 26 / 125, quality_level := UNSAFE \<rparr>"
    by (simp add: Let_def alarming_detect alarming_safety alarming_off_task s
        categorize_quality_def)
  then show ?thesis by (simp add: example_raise)
qed

section \<open>Properties of the ledgers of the rate limiter\<close>






section \<open>Properties of the orchestrator\<close>

subsection \<open>Provider calls of the retry loop\<close>

text \<open>One run of the retry loop calls the provider at most \<open>max_attempts\<close> times, always
  with the same provider and model; waiting between attempts calls nothing.\<close>

lemma backoff_calls [simp]: "generate_calls (backoff env strategy attempt w) = generate_calls w"
  by (simp add: backoff_def Let_def)




subsection \<open>The fallback and the protected call\<close>



lemma log_error_frame [simp]:
  "config (log_error rid e c g) = config g"
  "retry_strategy (log_error rid e c g) = retry_strategy g"
  "llm_clients (log_error rid e c g) = llm_clients g"
  "circuit_breaker (log_error rid e c g) = circuit_breaker g"
  "rate_limiter (log_error rid e c g) = rate_limiter g"
  "performance_monitor (log_error rid e c g) = performance_monitor g"
  "quality_monitor (log_error rid e c g) = quality_monitor g"
  "audit_log (log_error rid e c g) = audit_log g @ [ErrorEvent rid e c]"
  by (simp_all add: log_error_def)




lemma ext_error2:
  "\<exists>es. a @ [ErrorEvent rid e c, ErrorEvent rid' e' c'] = a @ es \<and> (\<forall>ev\<in>set es. is_error ev)"
  by (rule exI[of _ "[ErrorEvent rid e c, ErrorEvent rid' e' c']"]) simp



subsection \<open>Steps 2 to 6\<close>



subsection \<open>Steps 7 to 10\<close>


lemma log_response_frame [simp]:
  "config (log_response r g) = config g"
  "retry_strategy (log_response r g) = retry_strategy g"
  "llm_clients (log_response r g) = llm_clients g"
  "circuit_breaker (log_response r g) = circuit_breaker g"
  "rate_limiter (log_response r g) = rate_limiter g"
  "performance_monitor (log_response r g) = performance_monitor g"
  "quality_monitor (log_response r g) = quality_monitor g"
  "audit_log (log_response r g) = audit_log g @ [ResponseEvent r]"
  by (simp_all add: log_response_def)



subsection \<open>The whole request\<close>

lemma log_request_frame [simp]:
  "config (log_request ctx g) = config g"
  "retry_strategy (log_request ctx g) = retry_strategy g"
  "llm_clients (log_request ctx g) = llm_clients g"
  "circuit_breaker (log_request ctx g) = circuit_breaker g"
  "rate_limiter (log_request ctx g) = rate_limiter g"
  "performance_monitor (log_request ctx g) = performance_monitor g"
  "quality_monitor (log_request ctx g) = quality_monitor g"
  "audit_log (log_request ctx g) = audit_log g @ [RequestEvent (request_id ctx)]"
  by (simp_all add: log_request_def)




lemma call_llm_breaker [simp]:
  "call_llm env (g\<lparr> circuit_breaker := cb \<rparr>) = call_llm env g"
  by (intro ext) (simp add: call_llm_def)

lemma execute_with_retry_breaker [simp]:
  "LLMGuardian_execute_with_retry env (g\<lparr> circuit_breaker := cb \<rparr>)
     = LLMGuardian_execute_with_retry env g"
  by (intro ext) (simp add: LLMGuardian_execute_with_retry_def)


subsection \<open>The audit log of one request\<close>




subsection \<open>The provider calls of one request\<close>




subsection \<open>The fallback and the circuit breaker\<close>




subsection \<open>The USD ledgers of a request that raises\<close>




end
